theory Spec2Isabelle
  imports Main "HOL-Library.Sublist"
begin

section \<open>Paths, as the source uses them\<close>

text \<open>
  The source handles \<^verbatim>\<open>pathlib.Path\<close> values: it joins a directory with a fixed file
  name (\<^verbatim>\<open>output_dir / 'reconstructed_mesh.ply'\<close>) and formats paths into strings
  (\<^verbatim>\<open>f"{path}"\<close>). A POSIX path is its root (\<^verbatim>\<open>''\<close>, \<^verbatim>\<open>'/'\<close> or \<^verbatim>\<open>'//'\<close>) and the
  list of its components.
\<close>

datatype path = Path (anchor: string) (components: "string list")

fun split_on :: "char \<Rightarrow> string \<Rightarrow> string list" where
  "split_on c [] = [[]]"
| "split_on c (x # xs) =
     (if x = c then [] # split_on c xs
      else (case split_on c xs of
              [] \<Rightarrow> [[x]]
            | w # ws \<Rightarrow> (x # w) # ws))"

text \<open>\<^verbatim>\<open>sep.join(xs)\<close>\<close>

fun join_sep :: "string \<Rightarrow> string list \<Rightarrow> string" where
  "join_sep sep [] = []"
| "join_sep sep [x] = x"
| "join_sep sep (x # y # ys) = x @ sep @ join_sep sep (y # ys)"

text \<open>
  \<^verbatim>\<open>Path(s)\<close> on POSIX: one leading slash, or three and more, give the root \<^verbatim>\<open>'/'\<close>,
  exactly two give \<^verbatim>\<open>'//'\<close>; empty components and \<^verbatim>\<open>'.'\<close> are dropped.
\<close>

definition parse_path :: "string \<Rightarrow> path" where
  "parse_path s =
     (let slashes = length (takeWhile (\<lambda>c. c = CHR ''/'') s);
          rest = dropWhile (\<lambda>c. c = CHR ''/'') s
      in Path (if slashes = 0 then [] else if slashes = 2 then ''//'' else ''/'')
              (filter (\<lambda>x. x \<noteq> [] \<and> x \<noteq> ''.'') (split_on (CHR ''/'') rest)))"

text \<open>
  \<^verbatim>\<open>p / s\<close> for a string \<^verbatim>\<open>s\<close>: a rooted right operand replaces the left one, a
  relative one appends its components.
\<close>

definition path_div :: "path \<Rightarrow> string \<Rightarrow> path" where
  "path_div p s =
     (case parse_path s of
        Path r cs \<Rightarrow> if r \<noteq> [] then Path r cs else Path (anchor p) (components p @ cs))"

text \<open>
  \<^verbatim>\<open>str(p)\<close>, which is also what \<^verbatim>\<open>f"{p}"\<close> gives: the root and the components joined
  by slashes, or \<^verbatim>\<open>'.'\<close> when that is empty.
\<close>

definition str_path :: "path \<Rightarrow> string" where
  "str_path p =
     (let s = anchor p @ join_sep ''/'' (components p)
      in if s = [] then ''.'' else s)"

text \<open>\<^verbatim>\<open>p.name\<close> and \<^verbatim>\<open>p.parent\<close>\<close>

definition path_name :: "path \<Rightarrow> string" where
  "path_name p = (if components p = [] then [] else last (components p))"

definition path_parent :: "path \<Rightarrow> path" where
  "path_parent p = Path (anchor p) (butlast (components p))"


section \<open>Exceptions, collaborators and observable events\<close>

text \<open>A raised Python exception: its class and its message.\<close>

datatype pyexc = PyExc (exc_class: string) (exc_message: string)

text \<open>
  Modelled from the spec: module \<^verbatim>\<open>replica\<close> is imported by the source and is not among
  the source files. The three functions the source calls are parameters of the model.
  Following the spec, the name of the dataset and the output location are derived from
  the arguments alone; each call may raise instead of returning.
\<close>

record replica_module =
  get_dataset_name_from_dataset_root_path :: "path \<Rightarrow> pyexc + string"
  get_default_fuse_replica_binary_path :: "pyexc + path"
  get_output_dir :: "string \<Rightarrow> path option \<Rightarrow> pyexc + path"

text \<open>
  The host the call runs on: which paths are regular files (\<^verbatim>\<open>Path.is_file\<close>); what
  \<^verbatim>\<open>print\<close> does with a line: it raises when standard output cannot be written (closed,
  a broken pipe, a text that cannot be encoded), and otherwise returns nothing; and what
  \<^verbatim>\<open>subprocess.run\<close> does with a command line: it raises when the process cannot be
  started, and otherwise waits and returns the exit status.
\<close>

record host =
  is_file :: "path \<Rightarrow> bool"
  print_line :: "string \<Rightarrow> pyexc + unit"
  subprocess_run :: "string list \<Rightarrow> pyexc + int"

text \<open>What a call does that can be seen from outside, in order.\<close>

datatype event =
    Get_dataset_name path
  | Get_default_binary_path
  | Is_file path
  | Get_output_dir string "path option"
  | Print string
  | Subprocess_run "string list"


section \<open>The reconstruction driver\<close>

text \<open>Lines 53 and 54: the caller's binary path, or the default location.\<close>

definition resolve_binary_path :: "replica_module \<Rightarrow> path option \<Rightarrow> (pyexc + path) \<times> event list" where
  "resolve_binary_path replica fuse_replica_binary_path =
     (case fuse_replica_binary_path of
        None \<Rightarrow> (get_default_fuse_replica_binary_path replica, [Get_default_binary_path])
      | Some p \<Rightarrow> (Inr p, []))"

text \<open>
  Lines 63 to 66: \<^verbatim>\<open>print\<close> statements one after the other. Each call of \<^verbatim>\<open>print\<close> is
  an event; the first one that raises ends the sequence.
\<close>

fun print_lines :: "host \<Rightarrow> string list \<Rightarrow> (pyexc + unit) \<times> event list" where
  "print_lines h [] = (Inr (), [])"
| "print_lines h (m # ms) =
     (case print_line h m of
        Inl e \<Rightarrow> (Inl e, [Print m])
      | Inr u \<Rightarrow> (case print_lines h ms of (r, evs) \<Rightarrow> (r, Print m # evs)))"

text \<open>
  \<^verbatim>\<open>replica_reconstruction(dataset_path, output_root_path, fuse_replica_binary_path)\<close>:
  the value returned or the exception raised, and the events of the call.
\<close>

definition replica_reconstruction ::
  "replica_module \<Rightarrow> host \<Rightarrow> path \<Rightarrow> path option \<Rightarrow> path option
     \<Rightarrow> (pyexc + path \<times> path) \<times> event list" where
  "replica_reconstruction replica h dataset_path output_root_path fuse_replica_binary_path =
     (case get_dataset_name_from_dataset_root_path replica dataset_path of
        Inl e \<Rightarrow> (Inl e, [Get_dataset_name dataset_path])
      | Inr dataset_name \<Rightarrow>
          (case resolve_binary_path replica fuse_replica_binary_path of
             (Inl e, evs) \<Rightarrow> (Inl e, Get_dataset_name dataset_path # evs)
           | (Inr binary_path, evs) \<Rightarrow>
               if \<not> is_file h binary_path then
                 (Inl (PyExc ''Exception'' (''Cant find binary at:'' @ str_path binary_path)),
                  Get_dataset_name dataset_path # evs @ [Is_file binary_path])
               else
                 (case get_output_dir replica dataset_name output_root_path of
                    Inl e \<Rightarrow>
                      (Inl e,
                       Get_dataset_name dataset_path # evs @
                         [Is_file binary_path, Get_output_dir dataset_name output_root_path])
                  | Inr output_dir \<Rightarrow>
                      (let reconstructed_mesh_path = path_div output_dir ''reconstructed_mesh.ply'';
                           reconstructed_esdf_path = path_div output_dir ''reconstructed_esdf.ply'';
                           evs' = Get_dataset_name dataset_path # evs @
                                    [Is_file binary_path,
                                     Get_output_dir dataset_name output_root_path]
                       in (case print_lines h
                                  [''Running executable at:'' @ [CHR 0x09] @ str_path binary_path,
                                   ''On the dataset at:'' @ [CHR 0x09] @ str_path dataset_path,
                                   ''Outputting mesh at:'' @ [CHR 0x09] @ str_path reconstructed_mesh_path,
                                   ''Outputting esdf at:'' @ [CHR 0x09] @ str_path reconstructed_esdf_path] of
                             (Inl e, printed) \<Rightarrow> (Inl e, evs' @ printed)
                           | (Inr u, printed) \<Rightarrow>
                               (let mesh_output_path_flag = ''--mesh_output_path'';
                                    esdf_output_path_flag = ''--esdf_output_path'';
                                    argv = [str_path binary_path, str_path dataset_path,
                                            mesh_output_path_flag, str_path reconstructed_mesh_path,
                                            esdf_output_path_flag, str_path reconstructed_esdf_path]
                                in (case subprocess_run h argv of
                                      Inl e \<Rightarrow> (Inl e, evs' @ printed @ [Subprocess_run argv])
                                    | Inr returncode \<Rightarrow>
                                        (Inr (reconstructed_mesh_path, reconstructed_esdf_path),
                                         evs' @ printed @ [Subprocess_run argv]))))))))"


section \<open>The command-line entry point\<close>

text \<open>
  Lines 82 to 87: each \<^verbatim>\<open>add_argument\<close> call, with its name, its \<^verbatim>\<open>type=\<close> and its
  help text. Without \<^verbatim>\<open>type=\<close> an argument stays the string of the command line; with
  \<^verbatim>\<open>type=Path\<close> it is converted to a path.
\<close>

datatype arg_type = StrType | PathType

record argument =
  arg_name :: string
  arg_type :: arg_type
  arg_help :: string

definition parser_arguments :: "argument list" where
  "parser_arguments =
     [\<lparr>arg_name = ''dataset_path'', arg_type = PathType,
       arg_help = ''Path to the dataset root folder.''\<rparr>,
      \<lparr>arg_name = ''--output_root_path'', arg_type = PathType,
       arg_help = ''Path to the directory in which to save results.''\<rparr>,
      \<lparr>arg_name = ''--fuse_replica_binary_path'', arg_type = PathType,
       arg_help = ''Path to the fuse_replica binary. If not passed we search the standard build folder location.''\<rparr>]"

text \<open>
  In \<^verbatim>\<open>argparse\<close> a name that starts with \<^verbatim>\<open>-\<close> declares an optional flag, whose
  value is \<^verbatim>\<open>None\<close> when the flag is absent; any other name declares a positional
  argument, which is required.
\<close>

definition is_optional_flag :: "argument \<Rightarrow> bool" where
  "is_optional_flag a = (case arg_name a of [] \<Rightarrow> False | c # cs \<Rightarrow> c = CHR ''-'')"

text \<open>The namespace \<^verbatim>\<open>parse_args\<close> returns for this parser.\<close>

record namespace =
  ns_dataset_path :: path
  ns_output_root_path :: "path option"
  ns_fuse_replica_binary_path :: "path option"

text \<open>
  The body under \<^verbatim>\<open>if __name__ == '__main__'\<close>. \<^verbatim>\<open>parse_args\<close> is the library's:
  given the declared arguments and the command line it returns a namespace or exits.
  The pair the driver returns is dropped.
\<close>

definition main ::
  "(argument list \<Rightarrow> string list \<Rightarrow> pyexc + namespace) \<Rightarrow> replica_module \<Rightarrow> host
     \<Rightarrow> string list \<Rightarrow> (pyexc + unit) \<times> event list" where
  "main parse_args replica h command_line =
     (case parse_args parser_arguments command_line of
        Inl e \<Rightarrow> (Inl e, [])
      | Inr args \<Rightarrow>
          (case replica_reconstruction replica h (ns_dataset_path args)
                  (ns_output_root_path args) (ns_fuse_replica_binary_path args) of
             (Inl e, evs) \<Rightarrow> (Inl e, evs)
           | (Inr paths, evs) \<Rightarrow> (Inr (), evs)))"


text \<open>The first thing a call of the driver does is to ask for the name of the dataset.\<close>

fun is_driver_entry :: "event \<Rightarrow> bool" where
  "is_driver_entry (Get_dataset_name p) = True"
| "is_driver_entry e = False"


section \<open>Sample collaborators\<close>

text \<open>
  One instance of the parameters, on which the theorems below are evaluated at concrete
  calls: printing succeeds, the binary lives at \<^verbatim>\<open>/build/fuse_replica\<close>, the dataset is named after the
  last component of its path, and results go below \<^verbatim>\<open>/out\<close> unless a root is given.
\<close>

definition sample_binary :: path where
  "sample_binary = Path ''/'' [''build'', ''fuse_replica'']"

definition sample_replica :: replica_module where
  "sample_replica =
     \<lparr>get_dataset_name_from_dataset_root_path = (\<lambda>p. Inr (path_name p)),
      get_default_fuse_replica_binary_path = Inr sample_binary,
      get_output_dir = (\<lambda>n r. Inr (path_div (case r of None \<Rightarrow> Path ''/'' [''out''] | Some d \<Rightarrow> d) n))\<rparr>"

definition sample_host :: "int \<Rightarrow> host" where
  "sample_host returncode =
     \<lparr>is_file = (\<lambda>p. p = sample_binary),
      print_line = (\<lambda>m. Inr ()),
      subprocess_run = (\<lambda>argv. Inr returncode)\<rparr>"

text \<open>
  The same host with a binary that is a regular file and cannot be executed:
  \<^verbatim>\<open>subprocess.run\<close> raises \<^verbatim>\<open>PermissionError\<close>.
\<close>

definition sample_host_not_executable :: host where
  "sample_host_not_executable =
     \<lparr>is_file = (\<lambda>p. p = sample_binary),
      print_line = (\<lambda>m. Inr ()),
      subprocess_run = (\<lambda>argv. Inl (PyExc ''PermissionError'' ''[Errno 13] Permission denied''))\<rparr>"

definition sample_dataset :: path where
  "sample_dataset = Path ''/'' [''data'', ''office0'']"

text \<open>A command line of one word: the dataset path alone, both flags absent.\<close>

definition sample_parse_args :: "argument list \<Rightarrow> string list \<Rightarrow> pyexc + namespace" where
  "sample_parse_args declared command_line =
     (case command_line of
        [d] \<Rightarrow> Inr \<lparr>ns_dataset_path = parse_path d, ns_output_root_path = None,
                     ns_fuse_replica_binary_path = None\<rparr>
      | _ \<Rightarrow> Inl (PyExc ''SystemExit'' ''2''))"


section \<open>Facts about paths\<close>

lemma parse_mesh_name [simp]:
  "parse_path ''reconstructed_mesh.ply'' = Path [] [''reconstructed_mesh.ply'']"
  by (simp add: parse_path_def)

lemma parse_esdf_name [simp]:
  "parse_path ''reconstructed_esdf.ply'' = Path [] [''reconstructed_esdf.ply'']"
  by (simp add: parse_path_def)

lemma path_div_mesh [simp]:
  "path_div d ''reconstructed_mesh.ply'' = Path (anchor d) (components d @ [''reconstructed_mesh.ply''])"
  by (simp add: path_div_def)

lemma path_div_esdf [simp]:
  "path_div d ''reconstructed_esdf.ply'' = Path (anchor d) (components d @ [''reconstructed_esdf.ply''])"
  by (simp add: path_div_def)


lemma join_sep_snoc:
  "join_sep sep (cs @ [n]) = (if cs = [] then n else join_sep sep cs @ sep @ n)"
  by (induction sep cs rule: join_sep.induct) auto

lemma suffix_str_path_snoc: "suffix n (str_path (Path a (cs @ [n])))"
  by (simp add: str_path_def join_sep_snoc suffix_def Let_def)

lemma suffix_same_length:
  "suffix a x \<Longrightarrow> suffix b x \<Longrightarrow> length a = length b \<Longrightarrow> a = b"
  by (auto simp: suffix_def)


section \<open>How a call of the driver can end\<close>

lemma resolve_binary_path_events:
  "snd (resolve_binary_path replica fbp) = [] \<or> snd (resolve_binary_path replica fbp) = [Get_default_binary_path]"
  by (simp add: resolve_binary_path_def split: option.splits)

text \<open>The events of a sequence of prints are prints of the first lines, in order.\<close>

lemma print_lines_events: "\<exists>n. snd (print_lines h ms) = map Print (take n ms)"
proof (induction ms)
  case Nil
  then show ?case by simp
next
  case (Cons m ms)
  then obtain n where n: "snd (print_lines h ms) = map Print (take n ms)" by blast
  show ?case
  proof (cases "print_line h m")
    case (Inl e)
    then have "snd (print_lines h (m # ms)) = map Print (take 1 (m # ms))" by simp
    then show ?thesis by blast
  next
    case (Inr u)
    then have "snd (print_lines h (m # ms)) = map Print (take (Suc n) (m # ms))"
      using n by (auto split: prod.splits)
    then show ?thesis by blast
  qed
qed

text \<open>A sequence of prints returns exactly when every line is printed.\<close>

lemma print_lines_returns:
  "fst (print_lines h ms) = Inr u \<Longrightarrow>
     snd (print_lines h ms) = map Print ms \<and> (\<forall>m \<in> set ms. print_line h m = Inr ())"
  by (induction ms) (auto split: sum.splits prod.splits)

lemma print_lines_all:
  "(\<forall>m \<in> set ms. print_line h m = Inr ()) \<Longrightarrow> print_lines h ms = (Inr (), map Print ms)"
  by (induction ms) auto

lemma no_driver_entry_in_prints [simp]: "filter is_driver_entry (map Print ms) = []"
  by (induction ms) auto

text \<open>The six ways a call can end.\<close>

lemma replica_reconstruction_cases:
  obtains
    (name_raises) e where
      "get_dataset_name_from_dataset_root_path replica dataset_path = Inl e"
      "replica_reconstruction replica h dataset_path output_root_path fbp
         = (Inl e, [Get_dataset_name dataset_path])"
  | (default_raises) dataset_name e evs where
      "get_dataset_name_from_dataset_root_path replica dataset_path = Inr dataset_name"
      "resolve_binary_path replica fbp = (Inl e, evs)"
      "replica_reconstruction replica h dataset_path output_root_path fbp
         = (Inl e, Get_dataset_name dataset_path # evs)"
  | (no_binary) dataset_name binary_path evs where
      "get_dataset_name_from_dataset_root_path replica dataset_path = Inr dataset_name"
      "resolve_binary_path replica fbp = (Inr binary_path, evs)"
      "\<not> is_file h binary_path"
      "replica_reconstruction replica h dataset_path output_root_path fbp
         = (Inl (PyExc ''Exception'' (''Cant find binary at:'' @ str_path binary_path)),
            Get_dataset_name dataset_path # evs @ [Is_file binary_path])"
  | (output_dir_raises) dataset_name binary_path evs e where
      "get_dataset_name_from_dataset_root_path replica dataset_path = Inr dataset_name"
      "resolve_binary_path replica fbp = (Inr binary_path, evs)"
      "is_file h binary_path"
      "get_output_dir replica dataset_name output_root_path = Inl e"
      "replica_reconstruction replica h dataset_path output_root_path fbp
         = (Inl e, Get_dataset_name dataset_path # evs @
              [Is_file binary_path, Get_output_dir dataset_name output_root_path])"
  | (print_raises) dataset_name binary_path evs output_dir e printed where
      "get_dataset_name_from_dataset_root_path replica dataset_path = Inr dataset_name"
      "resolve_binary_path replica fbp = (Inr binary_path, evs)"
      "is_file h binary_path"
      "get_output_dir replica dataset_name output_root_path = Inr output_dir"
      "replica_reconstruction replica h dataset_path output_root_path fbp
         = (Inl e, Get_dataset_name dataset_path # evs @
              [Is_file binary_path, Get_output_dir dataset_name output_root_path] @
              map Print printed)"
  | (launched) dataset_name binary_path evs output_dir argv where
      "get_dataset_name_from_dataset_root_path replica dataset_path = Inr dataset_name"
      "resolve_binary_path replica fbp = (Inr binary_path, evs)"
      "is_file h binary_path"
      "get_output_dir replica dataset_name output_root_path = Inr output_dir"
      "argv = [str_path binary_path, str_path dataset_path,
               ''--mesh_output_path'', str_path (path_div output_dir ''reconstructed_mesh.ply''),
               ''--esdf_output_path'', str_path (path_div output_dir ''reconstructed_esdf.ply'')]"
      "snd (replica_reconstruction replica h dataset_path output_root_path fbp)
         = Get_dataset_name dataset_path # evs @
             [Is_file binary_path,
              Get_output_dir dataset_name output_root_path,
              Print (''Running executable at:'' @ [CHR 0x09] @ str_path binary_path),
              Print (''On the dataset at:'' @ [CHR 0x09] @ str_path dataset_path),
              Print (''Outputting mesh at:'' @ [CHR 0x09] @ str_path (path_div output_dir ''reconstructed_mesh.ply'')),
              Print (''Outputting esdf at:'' @ [CHR 0x09] @ str_path (path_div output_dir ''reconstructed_esdf.ply'')),
              Subprocess_run argv]"
      "fst (replica_reconstruction replica h dataset_path output_root_path fbp)
         = (case subprocess_run h argv of
              Inl e \<Rightarrow> Inl e
            | Inr returncode \<Rightarrow> Inr (path_div output_dir ''reconstructed_mesh.ply'',
                                    path_div output_dir ''reconstructed_esdf.ply''))"
      "print_line h (''Running executable at:'' @ [CHR 0x09] @ str_path binary_path) = Inr ()"
      "print_line h (''On the dataset at:'' @ [CHR 0x09] @ str_path dataset_path) = Inr ()"
      "print_line h (''Outputting mesh at:'' @ [CHR 0x09] @
                       str_path (path_div output_dir ''reconstructed_mesh.ply'')) = Inr ()"
      "print_line h (''Outputting esdf at:'' @ [CHR 0x09] @
                       str_path (path_div output_dir ''reconstructed_esdf.ply'')) = Inr ()"
proof (cases "get_dataset_name_from_dataset_root_path replica dataset_path")
  case (Inl e)
  then show ?thesis using name_raises by (simp add: replica_reconstruction_def)
next
  case name: (Inr dataset_name)
  obtain r evs where res: "resolve_binary_path replica fbp = (r, evs)"
    by (cases "resolve_binary_path replica fbp")
  show ?thesis
  proof (cases r)
    case (Inl e)
    then show ?thesis using default_raises name res by (simp add: replica_reconstruction_def)
  next
    case bin: (Inr binary_path)
    show ?thesis
    proof (cases "is_file h binary_path")
      case False
      then show ?thesis using no_binary name res bin by (simp add: replica_reconstruction_def)
    next
      case True
      show ?thesis
      proof (cases "get_output_dir replica dataset_name output_root_path")
        case (Inl e)
        then show ?thesis using output_dir_raises name res bin True
          by (simp add: replica_reconstruction_def)
      next
        case out: (Inr output_dir)
        let ?ms = "[''Running executable at:'' @ [CHR 0x09] @ str_path binary_path,
                    ''On the dataset at:'' @ [CHR 0x09] @ str_path dataset_path,
                    ''Outputting mesh at:'' @ [CHR 0x09] @
                      str_path (path_div output_dir ''reconstructed_mesh.ply''),
                    ''Outputting esdf at:'' @ [CHR 0x09] @
                      str_path (path_div output_dir ''reconstructed_esdf.ply'')]"
        have rr: "replica_reconstruction replica h dataset_path output_root_path fbp
                  = (let evs' = Get_dataset_name dataset_path # evs @
                                  [Is_file binary_path, Get_output_dir dataset_name output_root_path];
                         argv = [str_path binary_path, str_path dataset_path,
                                 ''--mesh_output_path'',
                                 str_path (path_div output_dir ''reconstructed_mesh.ply''),
                                 ''--esdf_output_path'',
                                 str_path (path_div output_dir ''reconstructed_esdf.ply'')]
                     in case print_lines h ?ms of
                          (Inl e, printed) \<Rightarrow> (Inl e, evs' @ printed)
                        | (Inr u, printed) \<Rightarrow>
                            (case subprocess_run h argv of
                               Inl e \<Rightarrow> (Inl e, evs' @ printed @ [Subprocess_run argv])
                             | Inr returncode \<Rightarrow>
                                 (Inr (path_div output_dir ''reconstructed_mesh.ply'',
                                       path_div output_dir ''reconstructed_esdf.ply''),
                                  evs' @ printed @ [Subprocess_run argv])))"
          unfolding replica_reconstruction_def Let_def
          by (simp only: name res bin out True sum.case prod.case not_True_eq_False if_False)
        obtain pr printed where pl: "print_lines h ?ms = (pr, printed)"
          by (cases "print_lines h ?ms")
        show ?thesis
        proof (cases pr)
          case (Inl e)
          obtain n where "printed = map Print (take n ?ms)"
            using print_lines_events [of h ?ms] pl by auto
          then show ?thesis
            using print_raises [OF name res [unfolded bin] True out, of e "take n ?ms"] rr pl Inl
            by (simp add: Let_def)
        next
          case (Inr u)
          then have ret: "printed = map Print ?ms" "\<forall>m \<in> set ?ms. print_line h m = Inr ()"
            using print_lines_returns [of h ?ms u] pl by simp_all
          show ?thesis
          proof (rule launched [OF name res [unfolded bin] True out refl])
            show "snd (replica_reconstruction replica h dataset_path output_root_path fbp)
                  = Get_dataset_name dataset_path # evs @
                      [Is_file binary_path,
                       Get_output_dir dataset_name output_root_path,
                       Print (''Running executable at:'' @ [CHR 0x09] @ str_path binary_path),
                       Print (''On the dataset at:'' @ [CHR 0x09] @ str_path dataset_path),
                       Print (''Outputting mesh at:'' @ [CHR 0x09] @ str_path (path_div output_dir ''reconstructed_mesh.ply'')),
                       Print (''Outputting esdf at:'' @ [CHR 0x09] @ str_path (path_div output_dir ''reconstructed_esdf.ply'')),
                       Subprocess_run
                         [str_path binary_path, str_path dataset_path,
                          ''--mesh_output_path'', str_path (path_div output_dir ''reconstructed_mesh.ply''),
                          ''--esdf_output_path'', str_path (path_div output_dir ''reconstructed_esdf.ply'')]]"
              unfolding rr Let_def pl Inr ret(1) by (simp split: sum.splits)
            show "fst (replica_reconstruction replica h dataset_path output_root_path fbp)
                  = (case subprocess_run h
                            [str_path binary_path, str_path dataset_path,
                             ''--mesh_output_path'', str_path (path_div output_dir ''reconstructed_mesh.ply''),
                             ''--esdf_output_path'', str_path (path_div output_dir ''reconstructed_esdf.ply'')] of
                       Inl e \<Rightarrow> Inl e
                     | Inr returncode \<Rightarrow> Inr (path_div output_dir ''reconstructed_mesh.ply'',
                                             path_div output_dir ''reconstructed_esdf.ply''))"
              unfolding rr Let_def pl Inr by (simp split: sum.splits)
          qed (use ret(2) in simp_all)
        qed
      qed
    qed
  qed
qed


section \<open>The driver ignores the exit status\<close>

text \<open>
  C1. When the resolved binary path is an existing regular file, the name of the dataset
  and the output directory are computed, the four progress messages are written and the
  process is started and exits, the call returns the two computed output paths and
  raises nothing, whatever the exit status is: zero or not, the status is never looked
  at.
\<close>

theorem returns_paths_for_every_exit_status:
  assumes name: "get_dataset_name_from_dataset_root_path replica dataset_path = Inr dataset_name"
    and bin: "fst (resolve_binary_path replica fuse_replica_binary_path) = Inr binary_path"
    and regular: "is_file h binary_path"
    and out: "get_output_dir replica dataset_name output_root_path = Inr output_dir"
    and printed:
      "\<forall>m \<in> set [''Running executable at:'' @ [CHR 0x09] @ str_path binary_path,
                     ''On the dataset at:'' @ [CHR 0x09] @ str_path dataset_path,
                     ''Outputting mesh at:'' @ [CHR 0x09] @
                       str_path (path_div output_dir ''reconstructed_mesh.ply''),
                     ''Outputting esdf at:'' @ [CHR 0x09] @
                       str_path (path_div output_dir ''reconstructed_esdf.ply'')].
         print_line h m = Inr ()"
    and exited:
      "subprocess_run h
         [str_path binary_path, str_path dataset_path,
              ''--mesh_output_path'', str_path (path_div output_dir ''reconstructed_mesh.ply''),
              ''--esdf_output_path'', str_path (path_div output_dir ''reconstructed_esdf.ply'')]
       = Inr returncode"
  shows "fst (replica_reconstruction replica h dataset_path output_root_path
                fuse_replica_binary_path)
         = Inr (path_div output_dir ''reconstructed_mesh.ply'',
                path_div output_dir ''reconstructed_esdf.ply'')"
proof -
  obtain evs where res: "resolve_binary_path replica fuse_replica_binary_path = (Inr binary_path, evs)"
    using bin by (cases "resolve_binary_path replica fuse_replica_binary_path") simp
  have pl: "print_lines h [''Running executable at:'' @ [CHR 0x09] @ str_path binary_path,
                     ''On the dataset at:'' @ [CHR 0x09] @ str_path dataset_path,
                     ''Outputting mesh at:'' @ [CHR 0x09] @
                       str_path (path_div output_dir ''reconstructed_mesh.ply''),
                     ''Outputting esdf at:'' @ [CHR 0x09] @
                       str_path (path_div output_dir ''reconstructed_esdf.ply'')]
            = (Inr (), map Print [''Running executable at:'' @ [CHR 0x09] @ str_path binary_path,
                     ''On the dataset at:'' @ [CHR 0x09] @ str_path dataset_path,
                     ''Outputting mesh at:'' @ [CHR 0x09] @
                       str_path (path_div output_dir ''reconstructed_mesh.ply''),
                     ''Outputting esdf at:'' @ [CHR 0x09] @
                       str_path (path_div output_dir ''reconstructed_esdf.ply'')])"
    using printed by (rule print_lines_all)
  show ?thesis
    unfolding replica_reconstruction_def Let_def
    using exited
    by (simp only: name res regular out pl sum.case prod.case not_True_eq_False if_False fst_conv)
qed

theorem returns_paths_for_every_exit_status_witness:
  "get_dataset_name_from_dataset_root_path sample_replica sample_dataset = Inr ''office0''
   \<and> fst (resolve_binary_path sample_replica None) = Inr sample_binary
   \<and> is_file (sample_host 1) sample_binary
   \<and> get_output_dir sample_replica ''office0'' None = Inr (Path ''/'' [''out'', ''office0''])
   \<and> print_line (sample_host 1) (''Running executable at:'' @ [CHR 0x09] @ ''/build/fuse_replica'')
       = Inr ()
   \<and> subprocess_run (sample_host 1)
         [''/build/fuse_replica'', ''/data/office0'',
          ''--mesh_output_path'', ''/out/office0/reconstructed_mesh.ply'',
          ''--esdf_output_path'', ''/out/office0/reconstructed_esdf.ply'']
       = Inr 1
   \<and> fst (replica_reconstruction sample_replica (sample_host 1) sample_dataset None None)
       = Inr (Path ''/'' [''out'', ''office0'', ''reconstructed_mesh.ply''],
              Path ''/'' [''out'', ''office0'', ''reconstructed_esdf.ply''])"
  using returns_paths_for_every_exit_status
    [of sample_replica sample_dataset "''office0''" None sample_binary "sample_host 1" None
        "Path ''/'' [''out'', ''office0'']" 1]
  by (simp add: replica_reconstruction_def Let_def sample_replica_def sample_host_def sample_dataset_def
      sample_binary_def resolve_binary_path_def path_name_def path_div_def parse_path_def
      path_parent_def str_path_def)

text \<open>
  That the binary is an existing regular file is not enough for the call to return: on
  a host where the file cannot be executed, \<^verbatim>\<open>subprocess.run\<close> raises and the call raises
  with it.
\<close>

theorem existing_binary_call_raises:
  "fst (resolve_binary_path sample_replica None) = Inr sample_binary
   \<and> is_file sample_host_not_executable sample_binary
   \<and> fst (replica_reconstruction sample_replica sample_host_not_executable sample_dataset
            None None)
       = Inl (PyExc ''PermissionError'' ''[Errno 13] Permission denied'')"
  by (simp add: sample_host_not_executable_def replica_reconstruction_def Let_def
      sample_replica_def sample_host_def sample_dataset_def
      sample_binary_def resolve_binary_path_def path_name_def path_div_def parse_path_def
      path_parent_def str_path_def)


section \<open>A missing binary stops the call before any process is started\<close>

text \<open>
  C2. When the name of the dataset is computed and the resolved executable path (the
  caller's, or the default one when the caller gives none) is not an existing regular
  file, the call raises the missing-executable exception, and \<^verbatim>\<open>subprocess.run\<close> is never
  called: the check comes before any process.
\<close>

theorem missing_binary_raises_before_launch:
  assumes "get_dataset_name_from_dataset_root_path replica dataset_path = Inr dataset_name"
    and "fst (resolve_binary_path replica fuse_replica_binary_path) = Inr binary_path"
    and "\<not> is_file h binary_path"
  shows "fst (replica_reconstruction replica h dataset_path output_root_path fuse_replica_binary_path)
           = Inl (PyExc ''Exception'' (''Cant find binary at:'' @ str_path binary_path))
         \<and> (\<forall>argv. Subprocess_run argv \<notin>
               set (snd (replica_reconstruction replica h dataset_path output_root_path
                           fuse_replica_binary_path)))"
  using assms resolve_binary_path_events [of replica fuse_replica_binary_path]
  by (cases rule: replica_reconstruction_cases
        [of replica dataset_path h output_root_path fuse_replica_binary_path]) auto

theorem missing_binary_raises_before_launch_witness:
  "get_dataset_name_from_dataset_root_path sample_replica sample_dataset = Inr ''office0''
   \<and> fst (resolve_binary_path sample_replica (Some (Path ''/'' [''nowhere'']))) = Inr (Path ''/'' [''nowhere''])
   \<and> \<not> is_file (sample_host 0) (Path ''/'' [''nowhere''])
   \<and> fst (replica_reconstruction sample_replica (sample_host 0) sample_dataset None
            (Some (Path ''/'' [''nowhere''])))
       = Inl (PyExc ''Exception'' ''Cant find binary at:/nowhere'')
   \<and> (\<forall>argv. Subprocess_run argv \<notin>
         set (snd (replica_reconstruction sample_replica (sample_host 0) sample_dataset None
                     (Some (Path ''/'' [''nowhere''])))))"
  using missing_binary_raises_before_launch
    [of sample_replica sample_dataset "''office0''" "Some (Path ''/'' [''nowhere''])"
        "Path ''/'' [''nowhere'']" "sample_host 0" None]
  by (simp add: sample_replica_def sample_host_def sample_dataset_def sample_binary_def
      resolve_binary_path_def path_name_def str_path_def Let_def)


section \<open>The returned paths\<close>

text \<open>
  C3. When a call returns, the two paths are different (as paths and as strings), the
  first one is named \<^verbatim>\<open>reconstructed_mesh.ply\<close> and its string ends in that name, the
  second one is named \<^verbatim>\<open>reconstructed_esdf.ply\<close> and its string ends in that name, and
  both have the same parent: the output directory the collaborator returned.
\<close>

theorem returned_paths_shape:
  assumes "fst (replica_reconstruction replica h dataset_path output_root_path
                  fuse_replica_binary_path) = Inr (mesh, esdf)"
  shows "mesh \<noteq> esdf
       \<and> str_path mesh \<noteq> str_path esdf
       \<and> path_name mesh = ''reconstructed_mesh.ply''
       \<and> path_name esdf = ''reconstructed_esdf.ply''
       \<and> suffix ''reconstructed_mesh.ply'' (str_path mesh)
       \<and> suffix ''reconstructed_esdf.ply'' (str_path esdf)
       \<and> path_parent mesh = path_parent esdf
       \<and> (\<exists>dataset_name.
             get_dataset_name_from_dataset_root_path replica dataset_path = Inr dataset_name
           \<and> get_output_dir replica dataset_name output_root_path = Inr (path_parent mesh))"
proof (cases rule: replica_reconstruction_cases
         [of replica dataset_path h output_root_path fuse_replica_binary_path])
  case (launched dataset_name binary_path evs output_dir argv)
  from assms launched(7) have
    mesh: "mesh = Path (anchor output_dir) (components output_dir @ [''reconstructed_mesh.ply''])"
    and esdf: "esdf = Path (anchor output_dir) (components output_dir @ [''reconstructed_esdf.ply''])"
    by (auto split: sum.splits)
  have sm: "suffix ''reconstructed_mesh.ply'' (str_path mesh)"
    and se: "suffix ''reconstructed_esdf.ply'' (str_path esdf)"
    unfolding mesh esdf by (rule suffix_str_path_snoc)+
  have "str_path mesh \<noteq> str_path esdf"
  proof
    assume "str_path mesh = str_path esdf"
    with sm se have "''reconstructed_mesh.ply'' = ''reconstructed_esdf.ply''"
      by (intro suffix_same_length [of _ "str_path esdf"]) simp_all
    then show False by simp
  qed
  moreover have "path_parent mesh = output_dir" "path_parent esdf = output_dir"
    by (simp_all add: mesh esdf path_parent_def)
  ultimately show ?thesis
    using sm se launched(1,4) by (simp add: mesh esdf path_name_def)
qed (use assms in auto)

theorem returned_paths_shape_witness:
  "fst (replica_reconstruction sample_replica (sample_host 3) sample_dataset None None)
     = Inr (Path ''/'' [''out'', ''office0'', ''reconstructed_mesh.ply''],
            Path ''/'' [''out'', ''office0'', ''reconstructed_esdf.ply''])
   \<and> Path ''/'' [''out'', ''office0'', ''reconstructed_mesh.ply'']
       \<noteq> Path ''/'' [''out'', ''office0'', ''reconstructed_esdf.ply'']
   \<and> str_path (Path ''/'' [''out'', ''office0'', ''reconstructed_mesh.ply''])
       = ''/out/office0/reconstructed_mesh.ply''
   \<and> str_path (Path ''/'' [''out'', ''office0'', ''reconstructed_esdf.ply''])
       = ''/out/office0/reconstructed_esdf.ply''
   \<and> path_name (Path ''/'' [''out'', ''office0'', ''reconstructed_mesh.ply''])
       = ''reconstructed_mesh.ply''
   \<and> path_name (Path ''/'' [''out'', ''office0'', ''reconstructed_esdf.ply''])
       = ''reconstructed_esdf.ply''
   \<and> path_parent (Path ''/'' [''out'', ''office0'', ''reconstructed_mesh.ply''])
       = Path ''/'' [''out'', ''office0'']
   \<and> path_parent (Path ''/'' [''out'', ''office0'', ''reconstructed_esdf.ply''])
       = Path ''/'' [''out'', ''office0'']
   \<and> get_output_dir sample_replica ''office0'' None = Inr (Path ''/'' [''out'', ''office0''])"
  using returned_paths_shape
    [of sample_replica "sample_host 3" sample_dataset None None
        "Path ''/'' [''out'', ''office0'', ''reconstructed_mesh.ply'']"
        "Path ''/'' [''out'', ''office0'', ''reconstructed_esdf.ply'']"]
  by (simp add: replica_reconstruction_def Let_def sample_replica_def sample_host_def sample_dataset_def
      sample_binary_def resolve_binary_path_def path_name_def path_div_def parse_path_def
      path_parent_def str_path_def)

text \<open>
  C4. Two calls with the same dataset path, output root and binary path return the same
  pair of paths whenever both return, on any two hosts: whatever files exist there and
  whatever the external program does or returns.
\<close>

theorem returned_paths_deterministic:
  assumes "fst (replica_reconstruction replica h1 dataset_path output_root_path
                  fuse_replica_binary_path) = Inr paths1"
    and "fst (replica_reconstruction replica h2 dataset_path output_root_path
                fuse_replica_binary_path) = Inr paths2"
  shows "paths1 = paths2"
proof (cases rule: replica_reconstruction_cases
         [of replica dataset_path h1 output_root_path fuse_replica_binary_path])
  case first: (launched dataset_name binary_path evs output_dir argv)
  show ?thesis
  proof (cases rule: replica_reconstruction_cases
           [of replica dataset_path h2 output_root_path fuse_replica_binary_path])
    case (launched dataset_name' binary_path' evs' output_dir' argv')
    with first assms show ?thesis by (auto split: sum.splits)
  qed (use assms in auto)
qed (use assms in auto)

theorem returned_paths_deterministic_witness:
  "fst (replica_reconstruction sample_replica (sample_host 0) sample_dataset None None)
     = Inr (Path ''/'' [''out'', ''office0'', ''reconstructed_mesh.ply''],
            Path ''/'' [''out'', ''office0'', ''reconstructed_esdf.ply''])
   \<and> fst (replica_reconstruction sample_replica (sample_host 1) sample_dataset None None)
     = Inr (Path ''/'' [''out'', ''office0'', ''reconstructed_mesh.ply''],
            Path ''/'' [''out'', ''office0'', ''reconstructed_esdf.ply''])"
  using returned_paths_deterministic
    [of sample_replica "sample_host 0" sample_dataset None None
        "(Path ''/'' [''out'', ''office0'', ''reconstructed_mesh.ply''],
          Path ''/'' [''out'', ''office0'', ''reconstructed_esdf.ply''])"
        "sample_host 1"
        "(Path ''/'' [''out'', ''office0'', ''reconstructed_mesh.ply''],
          Path ''/'' [''out'', ''office0'', ''reconstructed_esdf.ply''])"]
  by (simp add: replica_reconstruction_def Let_def sample_replica_def sample_host_def sample_dataset_def
      sample_binary_def resolve_binary_path_def path_name_def path_div_def parse_path_def
      path_parent_def str_path_def)


section \<open>The command line of the subprocess\<close>

text \<open>
  C5. Whenever a call reaches \<^verbatim>\<open>subprocess.run\<close>, the command line is the string of the
  resolved binary path followed by exactly five arguments, in this order: the dataset
  path, \<^verbatim>\<open>--mesh_output_path\<close>, the mesh output path, \<^verbatim>\<open>--esdf_output_path\<close>, the esdf
  output path.
\<close>

theorem subprocess_command_line:
  assumes "Subprocess_run argv \<in>
             set (snd (replica_reconstruction replica h dataset_path output_root_path
                         fuse_replica_binary_path))"
  shows "\<exists>dataset_name binary_path output_dir.
           get_dataset_name_from_dataset_root_path replica dataset_path = Inr dataset_name
         \<and> fst (resolve_binary_path replica fuse_replica_binary_path) = Inr binary_path
         \<and> get_output_dir replica dataset_name output_root_path = Inr output_dir
         \<and> argv = [str_path binary_path,
                    str_path dataset_path,
                    ''--mesh_output_path'',
                    str_path (path_div output_dir ''reconstructed_mesh.ply''),
                    ''--esdf_output_path'',
                    str_path (path_div output_dir ''reconstructed_esdf.ply'')]
         \<and> length (tl argv) = 5"
  using assms resolve_binary_path_events [of replica fuse_replica_binary_path]
  by (cases rule: replica_reconstruction_cases
        [of replica dataset_path h output_root_path fuse_replica_binary_path]) auto

theorem subprocess_command_line_witness:
  "Subprocess_run
     [''/build/fuse_replica'', ''/data/office0'',
      ''--mesh_output_path'', ''/out/office0/reconstructed_mesh.ply'',
      ''--esdf_output_path'', ''/out/office0/reconstructed_esdf.ply'']
     \<in> set (snd (replica_reconstruction sample_replica (sample_host 0) sample_dataset None None))
   \<and> str_path sample_binary = ''/build/fuse_replica''
   \<and> str_path sample_dataset = ''/data/office0''
   \<and> str_path (path_div (Path ''/'' [''out'', ''office0'']) ''reconstructed_mesh.ply'')
       = ''/out/office0/reconstructed_mesh.ply''
   \<and> str_path (path_div (Path ''/'' [''out'', ''office0'']) ''reconstructed_esdf.ply'')
       = ''/out/office0/reconstructed_esdf.ply''"
  using subprocess_command_line
    [of "[''/build/fuse_replica'', ''/data/office0'',
      ''--mesh_output_path'', ''/out/office0/reconstructed_mesh.ply'',
      ''--esdf_output_path'', ''/out/office0/reconstructed_esdf.ply'']"
        sample_replica "sample_host 0" sample_dataset None None]
  by (simp add: replica_reconstruction_def Let_def sample_replica_def sample_host_def sample_dataset_def
      sample_binary_def resolve_binary_path_def path_name_def path_div_def parse_path_def
      path_parent_def str_path_def)


section \<open>Which binary path is used\<close>

text \<open>
  C6. In a call that got the name of the dataset: when no binary path is given, the
  default location is looked up and the path checked is the one the lookup returned;
  when a binary path is given, the default location is not looked up, the path checked
  is the given one, and the call does not depend on what the lookup would return.
\<close>

theorem binary_path_resolution:
  assumes "get_dataset_name_from_dataset_root_path replica dataset_path = Inr dataset_name"
  shows "Get_default_binary_path \<in>
           set (snd (replica_reconstruction replica h dataset_path output_root_path None))
       \<and> (\<forall>b. Is_file b \<in>
                 set (snd (replica_reconstruction replica h dataset_path output_root_path None))
               \<longleftrightarrow> get_default_fuse_replica_binary_path replica = Inr b)
       \<and> Get_default_binary_path \<notin>
           set (snd (replica_reconstruction replica h dataset_path output_root_path (Some p)))
       \<and> (\<forall>b. Is_file b \<in>
                 set (snd (replica_reconstruction replica h dataset_path output_root_path (Some p)))
               \<longleftrightarrow> b = p)
       \<and> (\<forall>d. replica_reconstruction
                 (replica\<lparr>get_default_fuse_replica_binary_path := d\<rparr>)
                 h dataset_path output_root_path (Some p)
               = replica_reconstruction replica h dataset_path output_root_path (Some p))"
proof -
  have none: "resolve_binary_path replica None
                = (get_default_fuse_replica_binary_path replica, [Get_default_binary_path])"
    and some: "\<And>r. resolve_binary_path r (Some p) = (Inr p, [])"
    by (simp_all add: resolve_binary_path_def)
  have "Get_default_binary_path \<in>
          set (snd (replica_reconstruction replica h dataset_path output_root_path None))
      \<and> (\<forall>b. Is_file b \<in>
                 set (snd (replica_reconstruction replica h dataset_path output_root_path None))
               \<longleftrightarrow> get_default_fuse_replica_binary_path replica = Inr b)"
    using none
    by (cases rule: replica_reconstruction_cases [of replica dataset_path h output_root_path None])
       (use assms in auto)
  moreover have "Get_default_binary_path \<notin>
           set (snd (replica_reconstruction replica h dataset_path output_root_path (Some p)))
       \<and> (\<forall>b. Is_file b \<in>
                 set (snd (replica_reconstruction replica h dataset_path output_root_path (Some p)))
               \<longleftrightarrow> b = p)"
    using some [of replica]
    by (cases rule: replica_reconstruction_cases [of replica dataset_path h output_root_path "Some p"])
       (use assms in auto)
  moreover have "replica_reconstruction (replica\<lparr>get_default_fuse_replica_binary_path := d\<rparr>)
                   h dataset_path output_root_path (Some p)
                 = replica_reconstruction replica h dataset_path output_root_path (Some p)" for d
    by (cases "get_dataset_name_from_dataset_root_path replica dataset_path")
       (simp_all add: replica_reconstruction_def some)
  ultimately show ?thesis by blast
qed

theorem binary_path_resolution_witness:
  "get_dataset_name_from_dataset_root_path sample_replica sample_dataset = Inr ''office0''
   \<and> Get_default_binary_path \<in>
         set (snd (replica_reconstruction sample_replica (sample_host 0) sample_dataset None None))
   \<and> Is_file sample_binary \<in>
         set (snd (replica_reconstruction sample_replica (sample_host 0) sample_dataset None None))
   \<and> Get_default_binary_path \<notin>
         set (snd (replica_reconstruction sample_replica (sample_host 0) sample_dataset None
                     (Some (Path ''/'' [''nowhere'']))))
   \<and> Is_file (Path ''/'' [''nowhere'']) \<in>
         set (snd (replica_reconstruction sample_replica (sample_host 0) sample_dataset None
                     (Some (Path ''/'' [''nowhere'']))))"
  using binary_path_resolution
    [of sample_replica sample_dataset "''office0''" "sample_host 0" None "Path ''/'' [''nowhere'']"]
  by (simp add: replica_reconstruction_def Let_def sample_replica_def sample_host_def sample_dataset_def
      sample_binary_def resolve_binary_path_def path_name_def path_div_def parse_path_def
      path_parent_def str_path_def)


section \<open>Progress messages\<close>

text \<open>
  C7. In a call that reaches \<^verbatim>\<open>subprocess.run\<close>, with the dataset name, the binary path
  and the output directory the lookups gave: the events of the call are the lookups and
  the check, then the four messages (binary path, dataset path, mesh output path, esdf
  output path, in this order, naming the same paths as the command line), then the
  subprocess as the last event. So the four lines are printed before the process is
  started, nothing is printed before them and nothing after the process. The printing
  decides nothing: what the call returns or raises is what \<^verbatim>\<open>subprocess.run\<close> gives, and
  on a host that differs only in what \<^verbatim>\<open>print\<close> does, a call that also reaches
  \<^verbatim>\<open>subprocess.run\<close> is the same call, event for event.
\<close>

theorem progress_messages_precede_launch:
  assumes "Subprocess_run argv \<in>
             set (snd (replica_reconstruction replica h dataset_path output_root_path
                         fuse_replica_binary_path))"
  shows "\<exists>dataset_name binary_path output_dir.
           get_dataset_name_from_dataset_root_path replica dataset_path = Inr dataset_name
         \<and> fst (resolve_binary_path replica fuse_replica_binary_path) = Inr binary_path
         \<and> get_output_dir replica dataset_name output_root_path = Inr output_dir
         \<and> argv = [str_path binary_path, str_path dataset_path,
                    ''--mesh_output_path'',
                    str_path (path_div output_dir ''reconstructed_mesh.ply''),
                    ''--esdf_output_path'',
                    str_path (path_div output_dir ''reconstructed_esdf.ply'')]
         \<and> snd (replica_reconstruction replica h dataset_path output_root_path
                   fuse_replica_binary_path)
             = Get_dataset_name dataset_path #
               snd (resolve_binary_path replica fuse_replica_binary_path) @
               [Is_file binary_path,
                Get_output_dir dataset_name output_root_path,
                Print (''Running executable at:'' @ [CHR 0x09] @ str_path binary_path),
                Print (''On the dataset at:'' @ [CHR 0x09] @ str_path dataset_path),
                Print (''Outputting mesh at:'' @ [CHR 0x09] @
                         str_path (path_div output_dir ''reconstructed_mesh.ply'')),
                Print (''Outputting esdf at:'' @ [CHR 0x09] @
                         str_path (path_div output_dir ''reconstructed_esdf.ply'')),
                Subprocess_run argv]
         \<and> (\<forall>s. Print s \<notin> set (snd (resolve_binary_path replica fuse_replica_binary_path)))
         \<and> (\<forall>a. Subprocess_run a \<notin>
                  set (snd (resolve_binary_path replica fuse_replica_binary_path)))
         \<and> fst (replica_reconstruction replica h dataset_path output_root_path
                   fuse_replica_binary_path)
             = (case subprocess_run h argv of
                  Inl e \<Rightarrow> Inl e
                | Inr returncode \<Rightarrow>
                    Inr (path_div output_dir ''reconstructed_mesh.ply'',
                         path_div output_dir ''reconstructed_esdf.ply''))
         \<and> (\<forall>pr argv'.
               Subprocess_run argv' \<in>
                 set (snd (replica_reconstruction replica (h\<lparr>print_line := pr\<rparr>) dataset_path
                             output_root_path fuse_replica_binary_path))
               \<longrightarrow> replica_reconstruction replica (h\<lparr>print_line := pr\<rparr>) dataset_path
                     output_root_path fuse_replica_binary_path
                   = replica_reconstruction replica h dataset_path output_root_path
                       fuse_replica_binary_path)"
proof (cases rule: replica_reconstruction_cases
         [of replica dataset_path h output_root_path fuse_replica_binary_path])
  case here: (launched dataset_name binary_path evs output_dir argv0)
  have evs: "evs = [] \<or> evs = [Get_default_binary_path]"
    using resolve_binary_path_events [of replica fuse_replica_binary_path] here(2) by simp
  then have argv: "argv = argv0" using assms here(6) by auto
  have same: "replica_reconstruction replica (h\<lparr>print_line := pr\<rparr>) dataset_path
                output_root_path fuse_replica_binary_path
              = replica_reconstruction replica h dataset_path output_root_path
                  fuse_replica_binary_path"
    if "Subprocess_run argv' \<in>
          set (snd (replica_reconstruction replica (h\<lparr>print_line := pr\<rparr>) dataset_path
                      output_root_path fuse_replica_binary_path))" for pr argv'
  proof (cases rule: replica_reconstruction_cases
           [of replica dataset_path "h\<lparr>print_line := pr\<rparr>" output_root_path
               fuse_replica_binary_path])
    case there: (launched dataset_name' binary_path' evs' output_dir' argv1)
    from here(1,2,4) there(1,2,4)
    have eq: "dataset_name' = dataset_name" "binary_path' = binary_path" "evs' = evs"
      "output_dir' = output_dir"
      by simp_all
    then have argv1: "argv1 = argv0" using here(5) there(5) by simp
    from here(6,7) there(6,7) [unfolded eq argv1] show ?thesis
      by (intro prod_eqI) simp_all
  qed (use that evs resolve_binary_path_events [of replica fuse_replica_binary_path] in auto)
  show ?thesis
    using here(1,2,4,5,6,7) evs argv same
    by (intro exI [of _ dataset_name] exI [of _ binary_path] exI [of _ output_dir]) auto
qed (use assms resolve_binary_path_events [of replica fuse_replica_binary_path] in auto)

theorem progress_messages_precede_launch_witness:
  "Subprocess_run
     [''/build/fuse_replica'', ''/data/office0'',
      ''--mesh_output_path'', ''/out/office0/reconstructed_mesh.ply'',
      ''--esdf_output_path'', ''/out/office0/reconstructed_esdf.ply'']
     \<in> set (snd (replica_reconstruction sample_replica (sample_host 0) sample_dataset None None))
   \<and> replica_reconstruction sample_replica (sample_host 0) sample_dataset None None
       = (Inr (Path ''/'' [''out'', ''office0'', ''reconstructed_mesh.ply''],
               Path ''/'' [''out'', ''office0'', ''reconstructed_esdf.ply'']),
          [Get_dataset_name sample_dataset,
           Get_default_binary_path,
           Is_file sample_binary,
           Get_output_dir ''office0'' None,
           Print (''Running executable at:'' @ [CHR 0x09] @ ''/build/fuse_replica''),
           Print (''On the dataset at:'' @ [CHR 0x09] @ ''/data/office0''),
           Print (''Outputting mesh at:'' @ [CHR 0x09] @ ''/out/office0/reconstructed_mesh.ply''),
           Print (''Outputting esdf at:'' @ [CHR 0x09] @ ''/out/office0/reconstructed_esdf.ply''),
           Subprocess_run
             [''/build/fuse_replica'', ''/data/office0'',
              ''--mesh_output_path'', ''/out/office0/reconstructed_mesh.ply'',
              ''--esdf_output_path'', ''/out/office0/reconstructed_esdf.ply'']])"
  using progress_messages_precede_launch
    [of "[''/build/fuse_replica'', ''/data/office0'',
          ''--mesh_output_path'', ''/out/office0/reconstructed_mesh.ply'',
          ''--esdf_output_path'', ''/out/office0/reconstructed_esdf.ply'']"
        sample_replica "sample_host 0" sample_dataset None None]
  by (simp add: replica_reconstruction_def Let_def sample_replica_def sample_host_def sample_dataset_def
      sample_binary_def resolve_binary_path_def path_name_def path_div_def parse_path_def
      path_parent_def str_path_def)


section \<open>The entry point\<close>

text \<open>
  C8. The parser declares exactly three arguments: the positional \<^verbatim>\<open>dataset_path\<close> and
  the optional flags \<^verbatim>\<open>--output_root_path\<close> and \<^verbatim>\<open>--fuse_replica_binary_path\<close>, each
  converted to a path. When parsing fails nothing else happens. When it succeeds, what
  the entry point does is one call of the driver with the three parsed values: the same
  events, the same exception if the driver raises, and the driver is entered once.
\<close>

theorem command_line_entry_point:
  "map arg_name parser_arguments
     = [''dataset_path'', ''--output_root_path'', ''--fuse_replica_binary_path'']
   \<and> map is_optional_flag parser_arguments = [False, True, True]
   \<and> map arg_type parser_arguments = [PathType, PathType, PathType]
   \<and> (\<forall>e. parse_args parser_arguments command_line = Inl e
          \<longrightarrow> main parse_args replica h command_line = (Inl e, []))
   \<and> (\<forall>args. parse_args parser_arguments command_line = Inr args
          \<longrightarrow> snd (main parse_args replica h command_line)
                = snd (replica_reconstruction replica h (ns_dataset_path args)
                         (ns_output_root_path args) (ns_fuse_replica_binary_path args))
            \<and> fst (main parse_args replica h command_line)
                = map_sum id (\<lambda>paths. ())
                    (fst (replica_reconstruction replica h (ns_dataset_path args)
                            (ns_output_root_path args) (ns_fuse_replica_binary_path args)))
            \<and> filter is_driver_entry (snd (main parse_args replica h command_line))
                = [Get_dataset_name (ns_dataset_path args)])"
proof -
  have once: "filter is_driver_entry (snd (replica_reconstruction replica h d r b))
                = [Get_dataset_name d]" for d r b
    using resolve_binary_path_events [of replica b]
    by (cases rule: replica_reconstruction_cases [of replica d h r b]) auto
  have decl: "map arg_name parser_arguments
                = [''dataset_path'', ''--output_root_path'', ''--fuse_replica_binary_path'']"
    "map is_optional_flag parser_arguments = [False, True, True]"
    "map arg_type parser_arguments = [PathType, PathType, PathType]"
    by (simp_all add: parser_arguments_def is_optional_flag_def)
  have "snd (main parse_args replica h command_line)
          = snd (replica_reconstruction replica h (ns_dataset_path args)
                   (ns_output_root_path args) (ns_fuse_replica_binary_path args))
      \<and> fst (main parse_args replica h command_line)
          = map_sum id (\<lambda>paths. ())
              (fst (replica_reconstruction replica h (ns_dataset_path args)
                      (ns_output_root_path args) (ns_fuse_replica_binary_path args)))"
    if "parse_args parser_arguments command_line = Inr args" for args
    using that by (simp add: main_def split: prod.splits sum.splits)
  then show ?thesis
    using decl once by (simp add: main_def)
qed

theorem command_line_entry_point_witness:
  "sample_parse_args parser_arguments [''/data/office0'']
     = Inr \<lparr>ns_dataset_path = sample_dataset, ns_output_root_path = None,
            ns_fuse_replica_binary_path = None\<rparr>
   \<and> main sample_parse_args sample_replica (sample_host 0) [''/data/office0'']
     = (Inr (),
        [Get_dataset_name sample_dataset,
         Get_default_binary_path,
         Is_file sample_binary,
         Get_output_dir ''office0'' None]
         @
        [Print (''Running executable at:'' @ [CHR 0x09] @ ''/build/fuse_replica''),
         Print (''On the dataset at:'' @ [CHR 0x09] @ ''/data/office0''),
         Print (''Outputting mesh at:'' @ [CHR 0x09] @ ''/out/office0/reconstructed_mesh.ply''),
         Print (''Outputting esdf at:'' @ [CHR 0x09] @ ''/out/office0/reconstructed_esdf.ply''),
         Subprocess_run
           [''/build/fuse_replica'', ''/data/office0'',
            ''--mesh_output_path'', ''/out/office0/reconstructed_mesh.ply'',
            ''--esdf_output_path'', ''/out/office0/reconstructed_esdf.ply'']])
   \<and> sample_parse_args parser_arguments [] = Inl (PyExc ''SystemExit'' ''2'')
   \<and> main sample_parse_args sample_replica (sample_host 0) []
     = (Inl (PyExc ''SystemExit'' ''2''), [])"
  using command_line_entry_point
    [of sample_parse_args "[''/data/office0'']" sample_replica "sample_host 0"]
    command_line_entry_point
    [of sample_parse_args "[]" sample_replica "sample_host 0"]
  by (simp add: main_def sample_parse_args_def replica_reconstruction_def Let_def sample_replica_def sample_host_def sample_dataset_def
      sample_binary_def resolve_binary_path_def path_name_def path_div_def parse_path_def
      path_parent_def str_path_def)


section \<open>What a call with a missing binary leaves behind\<close>

text \<open>
  C9. When the resolved binary path is not an existing regular file, the only things the
  call does are the lookup of the dataset name, the lookup of the default location and
  the check of the binary: the output directory is never asked for (so it is neither
  resolved nor created) and no process is started.
\<close>

theorem missing_binary_touches_nothing:
  assumes "fst (resolve_binary_path replica fuse_replica_binary_path) = Inr binary_path"
    and "\<not> is_file h binary_path"
  shows "set (snd (replica_reconstruction replica h dataset_path output_root_path
                     fuse_replica_binary_path))
           \<subseteq> {Get_dataset_name dataset_path, Get_default_binary_path, Is_file binary_path}
       \<and> (\<forall>n r. Get_output_dir n r \<notin>
             set (snd (replica_reconstruction replica h dataset_path output_root_path
                         fuse_replica_binary_path)))
       \<and> (\<forall>argv. Subprocess_run argv \<notin>
             set (snd (replica_reconstruction replica h dataset_path output_root_path
                         fuse_replica_binary_path)))"
  using assms resolve_binary_path_events [of replica fuse_replica_binary_path]
  by (cases rule: replica_reconstruction_cases
        [of replica dataset_path h output_root_path fuse_replica_binary_path]) auto

theorem missing_binary_touches_nothing_witness:
  "fst (resolve_binary_path sample_replica (Some (Path ''/'' [''nowhere'']))) = Inr (Path ''/'' [''nowhere''])
   \<and> \<not> is_file (sample_host 0) (Path ''/'' [''nowhere''])
   \<and> snd (replica_reconstruction sample_replica (sample_host 0) sample_dataset None
            (Some (Path ''/'' [''nowhere''])))
       = [Get_dataset_name sample_dataset, Is_file (Path ''/'' [''nowhere''])]"
  using missing_binary_touches_nothing
    [of sample_replica "Some (Path ''/'' [''nowhere''])" "Path ''/'' [''nowhere'']" "sample_host 0" sample_dataset None]
  by (simp add: replica_reconstruction_def Let_def sample_replica_def sample_host_def sample_dataset_def
      sample_binary_def resolve_binary_path_def path_name_def path_div_def parse_path_def
      path_parent_def str_path_def)

text \<open>
  C10. The exception raised for a missing binary carries the message
  \<^verbatim>\<open>Cant find binary at:\<close> followed by the string of the resolved binary path, so the
  message begins with that text and ends with the path that was checked.
\<close>

theorem missing_binary_message_names_path:
  assumes "get_dataset_name_from_dataset_root_path replica dataset_path = Inr dataset_name"
    and "fst (resolve_binary_path replica fuse_replica_binary_path) = Inr binary_path"
    and "\<not> is_file h binary_path"
  shows "\<exists>e. fst (replica_reconstruction replica h dataset_path output_root_path
                   fuse_replica_binary_path) = Inl e
           \<and> exc_message e = ''Cant find binary at:'' @ str_path binary_path
           \<and> prefix ''Cant find binary at:'' (exc_message e)
           \<and> suffix (str_path binary_path) (exc_message e)"
proof (cases rule: replica_reconstruction_cases
         [of replica dataset_path h output_root_path fuse_replica_binary_path])
  case (no_binary dataset_name' binary_path' evs)
  with assms(2) have "binary_path' = binary_path" by simp
  with no_binary(4) show ?thesis
    by (simp add: suffix_def)
qed (use assms in auto)

theorem missing_binary_message_names_path_witness:
  "get_dataset_name_from_dataset_root_path sample_replica sample_dataset = Inr ''office0''
   \<and> fst (resolve_binary_path sample_replica None) = Inr sample_binary
   \<and> \<not> is_file ((sample_host 0)\<lparr>is_file := \<lambda>p. False\<rparr>) sample_binary
   \<and> fst (replica_reconstruction sample_replica ((sample_host 0)\<lparr>is_file := \<lambda>p. False\<rparr>)
            sample_dataset None None)
       = Inl (PyExc ''Exception'' ''Cant find binary at:/build/fuse_replica'')"
  using missing_binary_message_names_path
    [of sample_replica sample_dataset "''office0''" None sample_binary
        "(sample_host 0)\<lparr>is_file := \<lambda>p. False\<rparr>" None]
  by (simp add: replica_reconstruction_def Let_def sample_replica_def sample_host_def sample_dataset_def
      sample_binary_def resolve_binary_path_def path_name_def path_div_def parse_path_def
      path_parent_def str_path_def)

end
